theory Spec2Isabelle
  imports Complex_Main "HOL-Library.Multiset"
begin

section \<open>Common data\<close>

text \<open>
  Both strategies are Python classes deriving from QuantConnect's \<open>QCAlgorithm\<close>.
  Python floats are idealised as \<^typ>\<open>real\<close>: rounding, infinities and NaN are not
  modelled. The engine's services (indicators, portfolio, securities, clock) are read
  through a snapshot record that is an argument of every operation; the fields the
  strategy itself assigns form a state record that is passed in and returned.
  Calls to \<open>self.log\<close> are not modelled.
\<close>

datatype py_error = KeyError | ZeroDivisionError

text \<open>An indicator object as the strategies read it: \<open>is_ready\<close> and \<open>current.value\<close>.\<close>

record indicator =
  is_ready :: bool
  current_value :: real

text \<open>The calls the strategies make on the execution service.\<close>

datatype instruction = SetHoldings string real | Liquidate string

text \<open>The part of \<open>QCAlgorithm\<close> both strategies read.\<close>

record qc_algorithm =
  is_warming_up :: bool

text \<open>
  Modelled from the spec: QuantConnect's \<open>RollingWindow\<close> is not part of the sources.
  It has a fixed capacity, is indexed newest first (age 0 is the most recent entry), and
  evicts the oldest entry on overflow. A window is the list of its entries, newest first;
  \<open>count\<close> is its length.
\<close>

definition rw_add :: "nat \<Rightarrow> 'a \<Rightarrow> 'a list \<Rightarrow> 'a list" where
  "rw_add capacity x w = take capacity (x # w)"

text \<open>
  \<open>numpy.mean\<close> and \<open>numpy.std\<close> with their default arguments (\<open>ddof = 0\<close>): the
  standard deviation is the square root of the mean of the squared deviations from
  the mean.
\<close>

definition np_mean :: "real list \<Rightarrow> real" where
  "np_mean xs = sum_list xs / real (length xs)"

definition np_std :: "real list \<Rightarrow> real" where
  "np_std xs = sqrt (np_mean (map (\<lambda>x. (x - np_mean xs)\<^sup>2) xs))"

section \<open>Single-instrument strategy (MSFT/main.py)\<close>

subsection \<open>Parameters set by \<open>initialize\<close>\<close>

definition lookback_12m :: nat where
  "lookback_12m = 252"

definition target_vol :: real where
  "target_vol = 0.22"

definition max_leverage :: real where
  "max_leverage = 2.0"

definition base_leverage :: real where
  "base_leverage = 1.25"

definition strong_trend_leverage :: real where
  "strong_trend_leverage = 1.6"

definition vol_floor :: real where
  "vol_floor = 0.12"

subsection \<open>State and inputs\<close>

text \<open>
  \<open>price_history\<close> is a window of capacity \<open>lookback_12m + 1\<close>, \<open>return_history\<close> one of
  capacity 25; \<open>last_price\<close> starts as \<open>None\<close>.
\<close>

record msft_state =
  price_history :: "real list"
  return_history :: "real list"
  last_price :: "real option"

definition msft_initial :: msft_state where
  "msft_initial = \<lparr>price_history = [], return_history = [], last_price = None\<rparr>"

record trade_bar =
  close :: real

text \<open>
  A data slice: a key can be absent, or present with no bar (\<open>data["MSFT"]\<close> is
  \<open>None\<close>, which Python's \<open>not\<close> treats as false).
\<close>

type_synonym slice = "string \<rightharpoonup> trade_bar option"

record msft_env = qc_algorithm +
  sma_200 :: indicator
  sma_50 :: indicator
  rsi_indicator :: indicator
  holdings_value :: real
  total_portfolio_value :: real

subsection \<open>\<open>on_data\<close>\<close>

text \<open>
  \<open>self.last_price and self.last_price > 0\<close> is false for \<open>None\<close> and for \<open>0.0\<close>
  (both falsy), and otherwise is the comparison.
\<close>

definition on_data :: "slice \<Rightarrow> msft_state \<Rightarrow> msft_state" where
  "on_data data s =
    (case data ''MSFT'' of
       None \<Rightarrow> s
     | Some None \<Rightarrow> s
     | Some (Some bar) \<Rightarrow>
         (let price = close bar in
          if price \<le> 0 then s
          else
            let s1 = s\<lparr>price_history := rw_add (lookback_12m + 1) price (price_history s)\<rparr>;
                s2 = (case last_price s1 of
                        None \<Rightarrow> s1
                      | Some lp \<Rightarrow>
                          if lp \<noteq> 0 \<and> lp > 0
                          then s1\<lparr>return_history := rw_add 25 (price / lp - 1) (return_history s1)\<rparr>
                          else s1)
            in s2\<lparr>last_price := Some price\<rparr>))"

subsection \<open>\<open>get_12m_momentum\<close> and \<open>get_realized_vol\<close>\<close>

text \<open>
  The index \<open>lookback_12m\<close> is in range behind the count check. Python's float division
  raises \<open>ZeroDivisionError\<close> on a zero divisor.
\<close>

definition get_12m_momentum :: "msft_state \<Rightarrow> py_error + real option" where
  "get_12m_momentum s =
    (if length (price_history s) \<le> lookback_12m then Inr None
     else if price_history s ! lookback_12m = 0 then Inl ZeroDivisionError
     else Inr (Some (price_history s ! 0 / price_history s ! lookback_12m - 1)))"

definition get_realized_vol :: "msft_state \<Rightarrow> real option" where
  "get_realized_vol s =
    (if length (return_history s) < 20 then None
     else
       let returns = map (\<lambda>i. return_history s ! i) [0..<20]
       in Some (np_std returns * sqrt 252))"

subsection \<open>\<open>rebalance\<close>\<close>

datatype reason = EXIT | STRONG_DIP | STRONG_OVERBOUGHT | STRONG_TREND | MODERATE

text \<open>
  Lines 103 to 138 of \<open>rebalance\<close>: the target position and the tag of the reason
  string, from momentum, realized volatility, price, the two averages and the RSI.
\<close>

definition target_position :: "real \<Rightarrow> real \<Rightarrow> real \<Rightarrow> real \<Rightarrow> real \<Rightarrow> real \<Rightarrow> real \<times> reason" where
  "target_position momentum realized_vol current_price sma_200_val sma_50_val rsi_val =
    (let above_sma_200 = current_price > sma_200_val;
         above_sma_50 = current_price > sma_50_val;
         golden_cross = sma_50_val > sma_200_val
     in
       if momentum \<le> 0 \<or> \<not> above_sma_200 then (0.0, EXIT)
       else if above_sma_50 \<and> golden_cross then
         (let vol_scalar = target_vol / max realized_vol vol_floor;
              position = strong_trend_leverage * vol_scalar;
              position = max 1.0 (min max_leverage position)
          in
            if rsi_val < 35 then (min max_leverage (position * 1.15), STRONG_DIP)
            else if rsi_val > 72 then (max 1.0 (position * 0.92), STRONG_OVERBOUGHT)
            else (position, STRONG_TREND))
       else
         (let vol_scalar = target_vol / max realized_vol vol_floor;
              position = base_leverage * vol_scalar
          in (max 0.9 (min 1.5 position), MODERATE)))"

text \<open>Line 141: the current weight, guarded against a non-positive portfolio value.\<close>

definition current_weight :: "msft_env \<Rightarrow> real" where
  "current_weight env =
    (if total_portfolio_value env > 0
     then holdings_value env / total_portfolio_value env else 0)"

definition rebalance_msft :: "msft_env \<Rightarrow> msft_state \<Rightarrow> py_error + (msft_state \<times> instruction list)" where
  "rebalance_msft env s =
    (if is_warming_up env then Inr (s, [])
     else if \<not> is_ready (sma_200 env) \<or> \<not> is_ready (sma_50 env) then Inr (s, [])
     else if \<not> is_ready (rsi_indicator env) then Inr (s, [])
     else if length (price_history s) \<le> lookback_12m then Inr (s, [])
     else
       (case get_12m_momentum s of
          Inl e \<Rightarrow> Inl e
        | Inr momentum \<Rightarrow>
            (case (momentum, get_realized_vol s) of
               (Some m, Some realized_vol) \<Rightarrow>
                 (let current_price = price_history s ! 0;
                      sma_200_val = current_value (sma_200 env);
                      sma_50_val = current_value (sma_50 env);
                      rsi_val = current_value (rsi_indicator env);
                      (target, why) = target_position m realized_vol current_price
                                        sma_200_val sma_50_val rsi_val;
                      current = current_weight env
                  in
                    if \<bar>current - target\<bar> > 0.10
                    then Inr (s, [SetHoldings ''MSFT'' target])
                    else Inr (s, []))
             | _ \<Rightarrow> Inr (s, []))))"

section \<open>Multi-instrument strategy (Seasonal/main.py)\<close>

subsection \<open>Parameters set by \<open>initialize\<close>\<close>

definition top_n :: nat where
  "top_n = 3"

definition min_etfs :: nat where
  "min_etfs = 2"

definition aggressive_etfs :: "string list" where
  "aggressive_etfs = [''XLV'', ''XLI'', ''XLY'', ''XLB'']"

definition defensive_etfs :: "string list" where
  "defensive_etfs = [''XLK'', ''XLP'', ''XLU'', ''QQQ'']"

definition safety_etfs :: "string list" where
  "safety_etfs = [''TLT'', ''SHY'']"

definition market_etf :: string where
  "market_etf = ''SPY''"

text \<open>
  \<open>list(set(...))\<close> of the four groups: the order of the result is not specified by
  Python and nothing depends on it; only membership is used below.
\<close>

definition all_etfs :: "string list" where
  "all_etfs = remdups (aggressive_etfs @ defensive_etfs @ safety_etfs @ [market_etf])"

subsection \<open>State and inputs\<close>

record datetime =
  year :: nat
  month :: nat
  day :: nat

record symbol_data =
  symbol :: string
  momentum :: indicator
  sma :: indicator
  roc :: indicator

text \<open>
  The engine as \<open>rebalance\<close> reads it: the clock, the indicator objects that
  \<open>self.mom\<close>, \<open>self.sma\<close> and \<open>self.rocp\<close> returned for a symbol (in their state at the
  call), \<open>self.securities[symbol].price\<close> and \<open>self.portfolio[symbol].invested\<close>.
  The symbol that \<open>add_equity(ticker)\<close> returns is identified with the ticker.
\<close>

record seasonal_env = qc_algorithm +
  time :: datetime
  mom_indicator :: "string \<Rightarrow> indicator"
  sma_indicator :: "string \<Rightarrow> indicator"
  rocp_indicator :: "string \<Rightarrow> indicator"
  securities_price :: "string \<Rightarrow> real"
  portfolio_invested :: "string \<Rightarrow> bool"

record seasonal_state =
  current_holdings :: "string list"
  last_rebalance :: "datetime option"


text \<open>
  The dictionary \<open>self.symbol_data\<close> as \<open>initialize\<close> fills it: one entry per ticker of
  \<open>all_etfs\<close>. A lookup of any other key raises \<open>KeyError\<close>.
\<close>

definition symbol_data_of :: "seasonal_env \<Rightarrow> string \<rightharpoonup> symbol_data" where
  "symbol_data_of env ticker =
    (if ticker \<in> set all_etfs
     then Some \<lparr>symbol = ticker,
                momentum = mom_indicator env ticker,
                sma = sma_indicator env ticker,
                roc = rocp_indicator env ticker\<rparr>
     else None)"

subsection \<open>Regime\<close>

definition is_winter_season :: "seasonal_env \<Rightarrow> bool" where
  "is_winter_season env = (month (time env) \<ge> 11 \<or> month (time env) \<le> 4)"

definition is_market_bullish :: "seasonal_env \<Rightarrow> py_error + bool" where
  "is_market_bullish env =
    (case symbol_data_of env market_etf of
       None \<Rightarrow> Inl KeyError
     | Some spy_data \<Rightarrow>
         if \<not> is_ready (sma spy_data) then Inr True
         else
           let current_price = securities_price env (symbol spy_data)
           in Inr (current_price > current_value (sma spy_data)))"

subsection \<open>\<open>get_etf_scores\<close>\<close>

text \<open>
  \<open>list.sort(key=f, reverse=True)\<close>: CPython reverses the list, sorts it stably in
  ascending order of the key, and reverses the result, so that equal keys keep their
  original order. \<^const>\<open>sort_key\<close> is a stable sort.
\<close>

definition py_sort_reverse :: "('a \<Rightarrow> real) \<Rightarrow> 'a list \<Rightarrow> 'a list" where
  "py_sort_reverse f xs = rev (sort_key f (rev xs))"

text \<open>The loop of \<open>get_etf_scores\<close>: the list \<open>scores\<close> before it is sorted.\<close>

fun scores_loop :: "seasonal_env \<Rightarrow> string list \<Rightarrow> (string \<times> real) list \<Rightarrow> py_error + (string \<times> real) list" where
  "scores_loop env [] scores = Inr scores"
| "scores_loop env (ticker # etf_list) scores =
    (case symbol_data_of env ticker of
       None \<Rightarrow> Inl KeyError
     | Some data \<Rightarrow>
         if \<not> is_ready (momentum data) \<or> \<not> is_ready (sma data) then scores_loop env etf_list scores
         else
           let current_price = securities_price env (symbol data)
           in
             if current_price \<le> current_value (sma data) then scores_loop env etf_list scores
             else
               let momentum_score = (if is_ready (roc data) then current_value (roc data) else 0)
               in scores_loop env etf_list (scores @ [(ticker, momentum_score)]))"

definition get_etf_scores :: "seasonal_env \<Rightarrow> string list \<Rightarrow> py_error + (string \<times> real) list" where
  "get_etf_scores env etf_list =
    (case scores_loop env etf_list [] of
       Inl e \<Rightarrow> Inl e
     | Inr scores \<Rightarrow> Inr (py_sort_reverse snd scores))"

subsection \<open>\<open>rebalance\<close>\<close>

text \<open>The two loops of \<open>rebalance\<close>, each returning the instructions it issues.\<close>

fun liquidate_loop :: "seasonal_env \<Rightarrow> string list \<Rightarrow> string list \<Rightarrow> py_error + instruction list" where
  "liquidate_loop env target_holdings [] = Inr []"
| "liquidate_loop env target_holdings (ticker # holdings) =
    (if ticker \<notin> set target_holdings then
       (case symbol_data_of env ticker of
          None \<Rightarrow> Inl KeyError
        | Some data \<Rightarrow>
            (case liquidate_loop env target_holdings holdings of
               Inl e \<Rightarrow> Inl e
             | Inr rest \<Rightarrow>
                 if portfolio_invested env (symbol data) then Inr (Liquidate (symbol data) # rest)
                 else Inr rest))
     else liquidate_loop env target_holdings holdings)"

fun set_holdings_loop :: "seasonal_env \<Rightarrow> real \<Rightarrow> string list \<Rightarrow> py_error + instruction list" where
  "set_holdings_loop env weight [] = Inr []"
| "set_holdings_loop env weight (ticker # target_holdings) =
    (case symbol_data_of env ticker of
       None \<Rightarrow> Inl KeyError
     | Some data \<Rightarrow>
         (case set_holdings_loop env weight target_holdings of
            Inl e \<Rightarrow> Inl e
          | Inr rest \<Rightarrow> Inr (SetHoldings (symbol data) weight # rest)))"

text \<open>Lines 169 to 180: the target holdings from the regime flag and the scores.\<close>

definition select_holdings :: "bool \<Rightarrow> (string \<times> real) list \<Rightarrow> string list" where
  "select_holdings market_bullish etf_scores =
    (if market_bullish \<and> length etf_scores \<ge> min_etfs
     then map fst (take top_n etf_scores)
     else safety_etfs)"

definition rebalance_seasonal :: "seasonal_env \<Rightarrow> seasonal_state \<Rightarrow> py_error + (seasonal_state \<times> instruction list)" where
  "rebalance_seasonal env s =
    (if is_warming_up env then Inr (s, [])
     else
       let is_winter = is_winter_season env;
           primary_etfs = (if is_winter then aggressive_etfs else defensive_etfs)
       in
         (case is_market_bullish env of
           Inl e \<Rightarrow> Inl e
         | Inr market_bullish \<Rightarrow>
             (case get_etf_scores env primary_etfs of
                Inl e \<Rightarrow> Inl e
              | Inr etf_scores \<Rightarrow>
                  (let target_holdings = select_holdings market_bullish etf_scores;
                       weight = (if target_holdings \<noteq> [] then 1.0 / real (length target_holdings) else 0)
                   in
                     (case liquidate_loop env target_holdings (current_holdings s) of
                        Inl e \<Rightarrow> Inl e
                      | Inr liquidated \<Rightarrow>
                          (case set_holdings_loop env weight target_holdings of
                             Inl e \<Rightarrow> Inl e
                           | Inr placed \<Rightarrow>
                               Inr (s\<lparr>current_holdings := target_holdings,
                                       last_rebalance := Some (time env)\<rparr>,
                                    liquidated @ placed)))))))"

section \<open>The specification's wording, derived notions and example inputs\<close>

text \<open>
  The definitions of this section are not translations of single source functions.
  Those named \<open>spec_...\<close> restate notions in the specification's words, so that the
  code can be compared with them; \<open>primary_etfs_of\<close> and \<open>target_of\<close> name
  intermediate values of \<open>rebalance\<close>; the rest are the concrete inputs at which the
  theorems below are instantiated.
\<close>

subsection \<open>Single-instrument strategy\<close>

text \<open>
  The specification's \<open>clamp(x, lo, hi)\<close>.
\<close>

definition spec_clamp :: "real \<Rightarrow> real \<Rightarrow> real \<Rightarrow> real" where
  "spec_clamp x lo hi = (if x < lo then lo else if x > hi then hi else x)"

text \<open>
  The specification's oscillator adjustment: times 1.15 and capped at the maximum
  leverage below 35, times 0.92 and floored at 1.0 above 72, unchanged otherwise.
\<close>

definition spec_oscillator_adjust :: "real \<Rightarrow> real \<Rightarrow> real" where
  "spec_oscillator_adjust oscillator position =
    (if oscillator < 35 then min max_leverage (position * 1.15)
     else if oscillator > 72 then max 1.0 (position * 0.92)
     else position)"

text \<open>
  The sample standard deviation: the squared deviations from the mean are divided by
  the number of values minus one.
\<close>

definition spec_sample_std :: "real list \<Rightarrow> real" where
  "spec_sample_std xs = sqrt (sum_list (map (\<lambda>x. (x - np_mean xs)\<^sup>2) xs) / real (length xs - 1))"

text \<open>
  Example states. \<open>ex_small\<close> holds two prices. \<open>ex_full\<close> is the state after the
  prices 50, 100, ..., 100 (252 times 100): the price window is full and the last 25
  returns are 0. \<open>ex_few_returns\<close> has a full price window but only 19 returns.
  \<open>ex_vol\<close> is the state after 21 prices alternating between 100 and 125.
\<close>

definition ex_small :: msft_state where
  "ex_small = \<lparr>price_history = [100, 80], return_history = [1 / 4], last_price = Some 100\<rparr>"

definition ex_full :: msft_state where
  "ex_full = \<lparr>price_history = replicate 252 100 @ [50], return_history = replicate 25 0,
               last_price = Some 100\<rparr>"


definition ex_env :: msft_env where
  "ex_env = \<lparr>is_warming_up = False,
     sma_200 = \<lparr>is_ready = True, current_value = 80\<rparr>,
     sma_50 = \<lparr>is_ready = True, current_value = 95\<rparr>,
     rsi_indicator = \<lparr>is_ready = True, current_value = 50\<rparr>,
     holdings_value = 0, total_portfolio_value = 100000\<rparr>"

definition ex_vol_prices :: "real list" where
  "ex_vol_prices = [100, 125, 100, 125, 100, 125, 100, 125, 100, 125, 100, 125, 100, 125,
                    100, 125, 100, 125, 100, 125, 100]"

definition ex_vol_returns :: "real list" where
  "ex_vol_returns = [- 0.2, 0.25, - 0.2, 0.25, - 0.2, 0.25, - 0.2, 0.25, - 0.2, 0.25,
                     - 0.2, 0.25, - 0.2, 0.25, - 0.2, 0.25, - 0.2, 0.25, - 0.2, 0.25]"

definition ex_vol :: msft_state where
  "ex_vol = \<lparr>price_history = ex_vol_prices, return_history = ex_vol_returns, last_price = Some 100\<rparr>"

subsection \<open>Multi-instrument strategy\<close>

text \<open>
  A candidate qualifies when its momentum and moving-average indicators are ready and
  its price is strictly above the average; its score is the rate of change, or 0 when
  that indicator is not ready.
\<close>

definition spec_qualifies :: "seasonal_env \<Rightarrow> string \<Rightarrow> bool" where
  "spec_qualifies env ticker =
    (is_ready (mom_indicator env ticker) \<and> is_ready (sma_indicator env ticker)
     \<and> securities_price env ticker > current_value (sma_indicator env ticker))"

definition spec_score :: "seasonal_env \<Rightarrow> string \<Rightarrow> real" where
  "spec_score env ticker =
    (if is_ready (rocp_indicator env ticker) then current_value (rocp_indicator env ticker) else 0)"

definition spec_scored :: "seasonal_env \<Rightarrow> string list \<Rightarrow> (string \<times> real) list" where
  "spec_scored env etf_list = map (\<lambda>t. (t, spec_score env t)) (filter (spec_qualifies env) etf_list)"

text \<open>
  The market is bullish when the benchmark trades above its average, and by default
  when the average is not ready.
\<close>

definition spec_market_bullish :: "seasonal_env \<Rightarrow> bool" where
  "spec_market_bullish env =
    (if is_ready (sma_indicator env market_etf)
     then securities_price env market_etf > current_value (sma_indicator env market_etf)
     else True)"

text \<open>
  The seasonal group \<open>rebalance\<close> works on, and the holdings it selects, as functions
  of the engine's state (lemma \<open>rebalance_seasonal_eq\<close> below relates them to the code).
\<close>

definition primary_etfs_of :: "seasonal_env \<Rightarrow> string list" where
  "primary_etfs_of env = (if is_winter_season env then aggressive_etfs else defensive_etfs)"

definition target_of :: "seasonal_env \<Rightarrow> string list" where
  "target_of env =
    select_holdings (spec_market_bullish env) (py_sort_reverse snd (spec_scored env (primary_etfs_of env)))"


text \<open>
  Example inputs. In \<open>cold_env\<close> warm-up is over but no indicator is ready. In
  \<open>bull_env\<close> (February) all indicators are ready, the benchmark is above its average
  and the four cyclical funds trade above theirs, two of them with equal scores;
  \<open>bear_env\<close> differs only in the benchmark's price, which is below its average.
\<close>

definition not_ready :: indicator where
  "not_ready = \<lparr>is_ready = False, current_value = 0\<rparr>"

definition ready :: "real \<Rightarrow> indicator" where
  "ready x = \<lparr>is_ready = True, current_value = x\<rparr>"

definition cold_env :: seasonal_env where
  "cold_env = \<lparr>is_warming_up = False,
     time = \<lparr>year = 2011, month = 1, day = 3\<rparr>,
     mom_indicator = (\<lambda>t. not_ready),
     sma_indicator = (\<lambda>t. not_ready),
     rocp_indicator = (\<lambda>t. not_ready),
     securities_price = (\<lambda>t. 0),
     portfolio_invested = (\<lambda>t. False)\<rparr>"

definition bull_env :: seasonal_env where
  "bull_env = \<lparr>is_warming_up = False,
     time = \<lparr>year = 2012, month = 2, day = 1\<rparr>,
     mom_indicator = (\<lambda>t. ready 1),
     sma_indicator = (\<lambda>t. ready 100),
     rocp_indicator = (\<lambda>t. ready 0)(''XLV'' := ready 0.05, ''XLI'' := ready 0.02,
                                         ''XLY'' := ready 0.10, ''XLB'' := ready 0.05),
     securities_price = (\<lambda>t. 90)(''SPY'' := 120, ''XLV'' := 110, ''XLI'' := 101,
                                    ''XLY'' := 130, ''XLB'' := 105),
     portfolio_invested = (\<lambda>t. False)(''TLT'' := True, ''XLV'' := True)\<rparr>"

definition bear_env :: seasonal_env where
  "bear_env = bull_env\<lparr>securities_price := (securities_price bull_env)(''SPY'' := 90)\<rparr>"

definition held_state :: seasonal_state where
  "held_state = \<lparr>current_holdings = [''TLT'', ''XLV''],
                  last_rebalance = Some \<lparr>year = 2012, month = 1, day = 3\<rparr>\<rparr>"

section \<open>Properties of the single-instrument strategy\<close>

subsection \<open>Ingestion\<close>

text \<open>
  Claim C7. A price event whose bar is missing (the key is absent, or its value is
  \<open>None\<close>) or whose close price is not positive leaves the whole state as it was:
  price window, return window and last price.
\<close>

theorem C7_invalid_bar_dropped:
  "data ''MSFT'' = None \<or> data ''MSFT'' = Some None
     \<or> (\<exists>bar. data ''MSFT'' = Some (Some bar) \<and> close bar \<le> 0)
   \<Longrightarrow> on_data data s = s"
  by (auto simp: on_data_def)

theorem C7_invalid_bar_dropped_witness:
  "on_data Map.empty ex_small = ex_small
   \<and> on_data [''MSFT'' \<mapsto> None] ex_small = ex_small
   \<and> close \<lparr>close = 0\<rparr> \<le> 0
   \<and> on_data [''MSFT'' \<mapsto> Some \<lparr>close = 0\<rparr>] ex_small = ex_small
   \<and> close \<lparr>close = - 5\<rparr> \<le> 0
   \<and> on_data [''MSFT'' \<mapsto> Some \<lparr>close = - 5\<rparr>] ex_small = ex_small"
  using C7_invalid_bar_dropped[of Map.empty ex_small]
    C7_invalid_bar_dropped[of "[''MSFT'' \<mapsto> None]" ex_small]
    C7_invalid_bar_dropped[of "[''MSFT'' \<mapsto> Some \<lparr>close = 0\<rparr>]" ex_small]
    C7_invalid_bar_dropped[of "[''MSFT'' \<mapsto> Some \<lparr>close = - 5\<rparr>]" ex_small]
  by simp

text \<open>
  For comparison, a bar with a positive close is stored; and only positive prices are
  ever stored, so that the momentum's divisor is never zero in a state that \<open>on_data\<close>
  has built.
\<close>

lemma on_data_accepts_positive:
  "on_data [''MSFT'' \<mapsto> Some \<lparr>close = 120\<rparr>] ex_small =
     \<lparr>price_history = [120, 100, 80], return_history = [1 / 5, 1 / 4], last_price = Some 120\<rparr>"
  by (simp add: on_data_def ex_small_def rw_add_def lookback_12m_def)

lemma on_data_prices_positive:
  assumes "\<forall>p \<in> set (price_history s). 0 < p"
  shows "\<forall>p \<in> set (price_history (on_data data s)). 0 < p"
  using assms
  by (auto simp: on_data_def rw_add_def Let_def split: option.splits dest!: in_set_takeD)


subsection \<open>The position sizer\<close>

lemma clamp_max_min: "lo \<le> hi \<Longrightarrow> max lo (min hi x) = spec_clamp x lo hi"
  by (simp add: spec_clamp_def max_def min_def)

lemma strong_clamp_bounds:
  fixes x :: real
  defines "pos \<equiv> max 1.0 (min max_leverage x)"
  shows "1 \<le> pos" "pos \<le> 2"
    "1 \<le> min max_leverage (pos * 1.15)" "min max_leverage (pos * 1.15) \<le> 2"
    "1 \<le> max 1.0 (pos * 0.92)" "max 1.0 (pos * 0.92) \<le> 2"
  unfolding pos_def max_leverage_def by (simp_all add: max_def min_def)

lemma moderate_clamp_bounds:
  fixes x :: real
  shows "0.9 \<le> max 0.9 (min 1.5 x)" "max 0.9 (min 1.5 x) \<le> 1.5"
  by (simp_all add: max_def min_def)

lemma tp_exit: "m \<le> 0 \<or> \<not> p > s200 \<Longrightarrow> target_position m v p s200 s50 rsi = (0, EXIT)"
  by (auto simp: target_position_def)

lemma tp_strong:
  assumes "m > 0" "p > s200" "p > s50" "s50 > s200"
  shows "target_position m v p s200 s50 rsi =
     (let position = max 1.0 (min max_leverage (strong_trend_leverage * (target_vol / max v vol_floor)))
      in if rsi < 35 then (min max_leverage (position * 1.15), STRONG_DIP)
         else if rsi > 72 then (max 1.0 (position * 0.92), STRONG_OVERBOUGHT)
         else (position, STRONG_TREND))"
proof -
  from assms have c1: "(m \<le> 0 \<or> \<not> p > s200) = False" and c2: "(p > s50 \<and> s50 > s200) = True"
    by auto
  show ?thesis
    unfolding target_position_def Let_def c1 c2 by (simp only: if_True if_False)
qed

lemma tp_moderate:
  assumes "m > 0" "p > s200" "\<not> (p > s50 \<and> s50 > s200)"
  shows "target_position m v p s200 s50 rsi =
     (max 0.9 (min 1.5 (base_leverage * (target_vol / max v vol_floor))), MODERATE)"
proof -
  from assms have c1: "(m \<le> 0 \<or> \<not> p > s200) = False" and c2: "(p > s50 \<and> s50 > s200) = False"
    by auto
  show ?thesis
    unfolding target_position_def Let_def c1 c2 by (simp only: if_True if_False)
qed

lemma tp_strong_bounds:
  assumes "m > 0" "p > s200" "p > s50" "s50 > s200"
  shows "1 \<le> fst (target_position m v p s200 s50 rsi) \<and> fst (target_position m v p s200 s50 rsi) \<le> 2"
proof -
  note b = strong_clamp_bounds[of "strong_trend_leverage * (target_vol / max v vol_floor)"]
  consider "rsi < 35" | "\<not> rsi < 35" "rsi > 72" | "\<not> rsi < 35" "\<not> rsi > 72" by blast
  then show ?thesis
  proof cases
    case 1
    then show ?thesis
      unfolding tp_strong[OF assms] Let_def using b(3,4) by (simp only: if_True fst_conv simp_thms)
  next
    case 2
    then show ?thesis
      unfolding tp_strong[OF assms] Let_def using b(5,6) by (simp only: if_True if_False fst_conv simp_thms)
  next
    case 3
    then show ?thesis
      unfolding tp_strong[OF assms] Let_def using b(1,2) by (simp only: if_True if_False fst_conv simp_thms)
  qed
qed

lemma tp_moderate_bounds:
  assumes "m > 0" "p > s200" "\<not> (p > s50 \<and> s50 > s200)"
  shows "0.9 \<le> fst (target_position m v p s200 s50 rsi) \<and> fst (target_position m v p s200 s50 rsi) \<le> 1.5"
  unfolding tp_moderate[OF assms] fst_conv using moderate_clamp_bounds by blast

lemma tp_range:
  "0 \<le> fst (target_position m v p s200 s50 rsi) \<and> fst (target_position m v p s200 s50 rsi) \<le> max_leverage"
proof -
  consider "m \<le> 0 \<or> \<not> p > s200" | "m > 0" "p > s200" "p > s50" "s50 > s200"
    | "m > 0" "p > s200" "\<not> (p > s50 \<and> s50 > s200)" by linarith
  then show ?thesis
  proof cases
    case 1
    then show ?thesis by (simp add: tp_exit max_leverage_def)
  next
    case 2
    from tp_strong_bounds[OF this, of v rsi] show ?thesis by (simp add: max_leverage_def)
  next
    case 3
    from tp_moderate_bounds[OF this, of v rsi] show ?thesis by (simp add: max_leverage_def)
  qed
qed

subsection \<open>The gate and the result of \<open>rebalance\<close>\<close>

lemma nth_upt_take: "n \<le> length xs \<Longrightarrow> map (\<lambda>i. xs ! i) [0..<n] = take n xs"
  by (rule nth_equalityI) simp_all

lemma rebalance_gate_passed:
  assumes "\<not> is_warming_up env" "is_ready (sma_200 env)" "is_ready (sma_50 env)"
    "is_ready (rsi_indicator env)" "get_12m_momentum s = Inr (Some m)" "get_realized_vol s = Some v"
  shows "rebalance_msft env s =
     Inr (s, if \<bar>current_weight env - fst (target_position m v (price_history s ! 0)
                   (current_value (sma_200 env)) (current_value (sma_50 env))
                   (current_value (rsi_indicator env)))\<bar> > 0.10
             then [SetHoldings ''MSFT'' (fst (target_position m v (price_history s ! 0)
                   (current_value (sma_200 env)) (current_value (sma_50 env))
                   (current_value (rsi_indicator env))))]
             else [])"
proof -
  from assms(5) have len: "\<not> length (price_history s) \<le> lookback_12m"
    by (auto simp: get_12m_momentum_def split: if_splits)
  show ?thesis
    unfolding rebalance_msft_def using assms len
    by (simp add: Let_def split: prod.splits)
qed



lemma rebalance_msft_result:
  assumes "rebalance_msft env s = Inr (s', ins)"
  shows "s' = s \<and> (ins = [] \<or> (\<exists>m v. get_12m_momentum s = Inr (Some m) \<and> get_realized_vol s = Some v \<and>
     ins = [SetHoldings ''MSFT'' (fst (target_position m v (price_history s ! 0)
                   (current_value (sma_200 env)) (current_value (sma_50 env))
                   (current_value (rsi_indicator env))))]))"
  using assms unfolding rebalance_msft_def
  by (auto simp: Let_def split: if_splits sum.splits option.splits prod.splits)

subsection \<open>The example state\<close>

lemma ex_full_momentum: "get_12m_momentum ex_full = Inr (Some 1)"
  by (simp add: get_12m_momentum_def ex_full_def lookback_12m_def nth_append)

lemma np_std_replicate: "n > 0 \<Longrightarrow> np_std (replicate n x) = 0"
  by (simp add: np_std_def np_mean_def sum_list_replicate)

lemma ex_full_vol: "get_realized_vol ex_full = Some 0"
  by (simp add: get_realized_vol_def ex_full_def nth_upt_take np_std_replicate)

lemma ex_full_price: "price_history ex_full ! 0 = 100"
  by (simp add: ex_full_def nth_append)

lemma ex_target: "target_position 1 0 100 80 95 50 = (2, STRONG_TREND)"
  by (simp add: target_position_def target_vol_def vol_floor_def strong_trend_leverage_def
      max_leverage_def)

lemma ex_rebalance: "rebalance_msft ex_env ex_full = Inr (ex_full, [SetHoldings ''MSFT'' 2])"
  using rebalance_gate_passed[of ex_env ex_full 1 0, OF _ _ _ _ ex_full_momentum ex_full_vol]
  by (simp add: ex_full_price ex_env_def ex_target current_weight_def)

subsection \<open>Bounds on the target position\<close>

text \<open>
  Claim C1. For every momentum, realized volatility, price, pair of averages and RSI,
  the target position lies between 0 and the maximum leverage 2.0; it is 0 in the exit
  tier (momentum not positive, or price not above the 200-day average), lies in
  [1.0, 2.0] in the strong-trend tier, with the RSI adjustment applied, and in
  [0.9, 1.5] in the moderate tier. Every instruction that \<open>rebalance\<close> issues sets the
  MSFT weight to a value in that range.
\<close>

theorem C1_target_within_bounds:
  "0 \<le> fst (target_position m v p s200 s50 rsi)
   \<and> fst (target_position m v p s200 s50 rsi) \<le> max_leverage
   \<and> max_leverage = 2.0
   \<and> (m \<le> 0 \<or> \<not> p > s200 \<longrightarrow> fst (target_position m v p s200 s50 rsi) = 0)
   \<and> (m > 0 \<and> p > s200 \<and> p > s50 \<and> s50 > s200 \<longrightarrow>
        1.0 \<le> fst (target_position m v p s200 s50 rsi) \<and> fst (target_position m v p s200 s50 rsi) \<le> 2.0)
   \<and> (m > 0 \<and> p > s200 \<and> \<not> (p > s50 \<and> s50 > s200) \<longrightarrow>
        0.9 \<le> fst (target_position m v p s200 s50 rsi) \<and> fst (target_position m v p s200 s50 rsi) \<le> 1.5)
   \<and> (rebalance_msft env s = Inr (s', ins) \<longrightarrow>
        (\<forall>i \<in> set ins. \<exists>w. i = SetHoldings ''MSFT'' w \<and> 0 \<le> w \<and> w \<le> max_leverage))"
proof -
  have "\<forall>i \<in> set ins. \<exists>w. i = SetHoldings ''MSFT'' w \<and> 0 \<le> w \<and> w \<le> max_leverage"
    if "rebalance_msft env s = Inr (s', ins)"
    using rebalance_msft_result[OF that] tp_range by auto
  moreover have "max_leverage = 2.0" by (simp add: max_leverage_def)
  moreover have "fst (target_position m v p s200 s50 rsi) = 0" if "m \<le> 0 \<or> \<not> p > s200"
    using tp_exit[OF that] by simp
  moreover have "1.0 \<le> fst (target_position m v p s200 s50 rsi) \<and> fst (target_position m v p s200 s50 rsi) \<le> 2.0"
    if "m > 0 \<and> p > s200 \<and> p > s50 \<and> s50 > s200"
    using that tp_strong_bounds[of m s200 p s50 v rsi] by simp
  moreover have "0.9 \<le> fst (target_position m v p s200 s50 rsi) \<and> fst (target_position m v p s200 s50 rsi) \<le> 1.5"
    if "m > 0 \<and> p > s200 \<and> \<not> (p > s50 \<and> s50 > s200)"
    using that tp_moderate_bounds[of m s200 p s50 v rsi] by blast
  ultimately show ?thesis using tp_range[of m v p s200 s50 rsi] by blast
qed

theorem C1_target_within_bounds_witness:
  "fst (target_position (- 1) 0.3 100 80 95 50) = 0
   \<and> 1.0 \<le> fst (target_position 1 0.3 100 80 95 30) \<and> fst (target_position 1 0.3 100 80 95 30) \<le> 2.0
   \<and> 0.9 \<le> fst (target_position 1 0.3 100 80 105 50) \<and> fst (target_position 1 0.3 100 80 105 50) \<le> 1.5
   \<and> rebalance_msft ex_env ex_full = Inr (ex_full, [SetHoldings ''MSFT'' 2])
   \<and> (0::real) \<le> 2 \<and> (2::real) \<le> max_leverage"
proof -
  note r = ex_rebalance
  have a: "fst (target_position (- 1) 0.3 100 80 95 50) = 0"
    using C1_target_within_bounds[of "- 1" "0.3" 100 80 95 50 ex_env ex_full ex_full "[SetHoldings ''MSFT'' 2]"]
    by (simp add: max_leverage_def)
  have b: "1.0 \<le> fst (target_position 1 0.3 100 80 95 30) \<and> fst (target_position 1 0.3 100 80 95 30) \<le> 2.0"
    using C1_target_within_bounds[of 1 "0.3" 100 80 95 30 ex_env ex_full ex_full "[SetHoldings ''MSFT'' 2]"]
    by (simp add: max_leverage_def)
  have c: "0.9 \<le> fst (target_position 1 0.3 100 80 105 50) \<and> fst (target_position 1 0.3 100 80 105 50) \<le> 1.5"
    using C1_target_within_bounds[of 1 "0.3" 100 80 105 50 ex_env ex_full ex_full "[SetHoldings ''MSFT'' 2]"]
    by (simp add: max_leverage_def)
  have d: "(0::real) \<le> 2 \<and> (2::real) \<le> max_leverage"
    using C1_target_within_bounds[of 1 "0.3" 100 80 105 50 ex_env ex_full ex_full "[SetHoldings ''MSFT'' 2]"] r
    by (simp add: max_leverage_def)
  from a b c d r show ?thesis by blast
qed

subsection \<open>The strong-trend tier\<close>

text \<open>
  Claim C2. In the strong-trend tier (positive momentum, price above both averages,
  short average above the long one) the target is the specification's clamp of
  \<open>strong_trend_leverage * target_vol / max realized_vol vol_floor\<close> to [1.0, maximum
  leverage], followed by the oscillator adjustment; with realized volatility 0.10 and
  RSI 50 it is exactly the maximum leverage 2.0.
\<close>

theorem C2_strong_trend_target:
  assumes "m > 0" "p > s200" "p > s50" "s50 > s200"
  shows "fst (target_position m v p s200 s50 rsi) =
           spec_oscillator_adjust rsi
             (spec_clamp (strong_trend_leverage * target_vol / max v vol_floor) 1.0 max_leverage)
     \<and> fst (target_position m 0.10 p s200 s50 50) = max_leverage
     \<and> max_leverage = 2.0 \<and> vol_floor = 0.12 \<and> target_vol = 0.22 \<and> strong_trend_leverage = 1.6"
proof -
  have le: "(1.0::real) \<le> max_leverage" by (simp add: max_leverage_def)
  have "fst (target_position m v p s200 s50 rsi) =
           spec_oscillator_adjust rsi
             (spec_clamp (strong_trend_leverage * (target_vol / max v vol_floor)) 1.0 max_leverage)"
    unfolding tp_strong[OF assms] spec_oscillator_adjust_def Let_def clamp_max_min[OF le]
    by (simp only: if_distrib[of fst] fst_conv)
  moreover have "fst (target_position m 0.10 p s200 s50 50) = max_leverage"
    unfolding tp_strong[OF assms]
    by (simp add: target_vol_def vol_floor_def strong_trend_leverage_def max_leverage_def)
  ultimately show ?thesis
    by (simp add: target_vol_def vol_floor_def strong_trend_leverage_def max_leverage_def)
qed

theorem C2_strong_trend_target_witness:
  "(0::real) < 1 \<and> (80::real) < 100 \<and> (95::real) < 100 \<and> (80::real) < 95
   \<and> fst (target_position 1 0.10 100 80 95 50) = 2
   \<and> fst (target_position 1 0.3 100 80 95 30) = 506 / 375
   \<and> fst (target_position 1 0.3 100 80 95 80) = 2024 / 1875
   \<and> fst (target_position 1 0.3 100 80 95 50) = 88 / 75"
proof -
  have h: "(0::real) < 1" "(80::real) < 100" "(95::real) < 100" "(80::real) < 95" by simp_all
  note t = C2_strong_trend_target[OF h]
  have k: "strong_trend_leverage * target_vol / max 0.3 vol_floor = 88 / 75"
    by (simp add: target_vol_def vol_floor_def strong_trend_leverage_def)
  have a: "fst (target_position 1 0.10 100 80 95 50) = 2"
    using t[of "0.3" 30] by (simp add: max_leverage_def)
  have b: "fst (target_position 1 0.3 100 80 95 30) = 506 / 375"
    using t[of "0.3" 30] unfolding k by (simp add: spec_oscillator_adjust_def spec_clamp_def max_leverage_def)
  have c: "fst (target_position 1 0.3 100 80 95 80) = 2024 / 1875"
    using t[of "0.3" 80] unfolding k by (simp add: spec_oscillator_adjust_def spec_clamp_def max_leverage_def)
  have d: "fst (target_position 1 0.3 100 80 95 50) = 88 / 75"
    using t[of "0.3" 50] unfolding k by (simp add: spec_oscillator_adjust_def spec_clamp_def max_leverage_def)
  from h a b c d show ?thesis by blast
qed

subsection \<open>Hysteresis\<close>



subsection \<open>Realized volatility\<close>

lemma realized_vol_take:
  "get_realized_vol s =
     (if length (return_history s) < 20 then None
      else Some (np_std (take 20 (return_history s)) * sqrt 252))"
  by (simp add: get_realized_vol_def nth_upt_take)

lemma scale_cancel:
  fixes S a b :: real
  shows "a \<noteq> 0 \<Longrightarrow> S / a * (a / b) = S / b"
  by simp

lemma np_std_sample_std:
  assumes "2 \<le> length xs"
  shows "np_std xs = spec_sample_std xs * sqrt (real (length xs - 1) / real (length xs))"
proof -
  let ?S = "sum_list (map (\<lambda>x. (x - np_mean xs)\<^sup>2) xs)"
  from assms have n: "real (length xs - 1) \<noteq> 0" by auto
  have "spec_sample_std xs * sqrt (real (length xs - 1) / real (length xs))
      = sqrt (?S / real (length xs - 1) * (real (length xs - 1) / real (length xs)))"
    by (simp only: spec_sample_std_def real_sqrt_mult)
  also have "\<dots> = sqrt (?S / real (length xs))"
    by (simp only: scale_cancel[OF n])
  finally show ?thesis by (simp add: np_std_def np_mean_def)
qed

lemma ex_vol_reachable:
  "foldl (\<lambda>s price. on_data [''MSFT'' \<mapsto> Some \<lparr>close = price\<rparr>] s) msft_initial (rev ex_vol_prices) = ex_vol"
  by (simp add: ex_vol_prices_def ex_vol_returns_def ex_vol_def msft_initial_def on_data_def rw_add_def lookback_12m_def)

lemma ex_vol_mean: "np_mean ex_vol_returns = 1 / 40"
  by (simp add: np_mean_def ex_vol_returns_def)

lemma ex_vol_sq: "sum_list (map (\<lambda>x. (x - 1 / 40)\<^sup>2) ex_vol_returns) = 81 / 80"
  by (simp add: ex_vol_returns_def power2_eq_square)

lemma sqrt_81_1600: "sqrt (81 / 1600) = 9 / 40"
  using real_sqrt_abs[of "9 / 40"] by (simp add: power2_eq_square)

lemma ex_vol_code: "get_realized_vol ex_vol = Some (9 / 40 * sqrt 252)"
proof -
  have l: "length ex_vol_returns = 20" by (simp add: ex_vol_returns_def)
  have "np_std ex_vol_returns = 9 / 40"
    unfolding np_std_def ex_vol_mean unfolding np_mean_def ex_vol_sq length_map l
    using sqrt_81_1600 by simp
  then show ?thesis by (simp add: realized_vol_take ex_vol_def l)
qed

lemma ex_vol_spec: "spec_sample_std (take 20 (return_history ex_vol)) = sqrt (81 / 1520)"
proof -
  have l: "length ex_vol_returns = 20" by (simp add: ex_vol_returns_def)
  have "spec_sample_std ex_vol_returns = sqrt (81 / 1520)"
    unfolding spec_sample_std_def ex_vol_mean ex_vol_sq l by simp
  then show ?thesis by (simp add: ex_vol_def l)
qed

text \<open>
  Claim C6, as stated, fails: after 21 prices alternating between 100 and 125 the
  code returns \<open>9 / 40 * sqrt 252\<close>, while the sample standard deviation of the 20
  returns times \<open>sqrt 252\<close> is \<open>sqrt (81 / 1520) * sqrt 252\<close>. \<open>numpy.std\<close> divides
  the squared deviations by the number of values, not by that number minus one.
\<close>

theorem C6_counterexample:
  "get_realized_vol ex_vol = Some (9 / 40 * sqrt 252)
   \<and> spec_sample_std (take 20 (return_history ex_vol)) * sqrt 252 = sqrt (81 / 1520) * sqrt 252
   \<and> get_realized_vol ex_vol \<noteq> Some (spec_sample_std (take 20 (return_history ex_vol)) * sqrt 252)"
proof -
  have "sqrt (81 / 1600) \<noteq> sqrt (81 / 1520)" by simp
  then have "9 / 40 * sqrt 252 \<noteq> sqrt (81 / 1520) * sqrt 252"
    unfolding sqrt_81_1600 by simp
  then show ?thesis by (simp add: ex_vol_code ex_vol_spec)
qed

text \<open>
  Claim C6, amended. \<open>get_realized_vol\<close> returns \<open>None\<close> while fewer than 20 returns
  are stored; otherwise it returns the population standard deviation (divisor 20) of
  the 20 most recent returns times \<open>sqrt 252\<close>, which is the sample standard deviation
  scaled by \<open>sqrt (19 / 20)\<close>.
\<close>

theorem C6_realized_vol_population:
  "(length (return_history s) < 20 \<longrightarrow> get_realized_vol s = None)
   \<and> (20 \<le> length (return_history s) \<longrightarrow>
        get_realized_vol s = Some (np_std (take 20 (return_history s)) * sqrt 252)
        \<and> np_std (take 20 (return_history s)) =
            sqrt ((\<Sum>x\<leftarrow>take 20 (return_history s). (x - np_mean (take 20 (return_history s)))\<^sup>2) / 20)
        \<and> np_std (take 20 (return_history s)) =
            spec_sample_std (take 20 (return_history s)) * sqrt (19 / 20))"
proof (intro conjI impI)
  assume "length (return_history s) < 20"
  then show "get_realized_vol s = None" by (simp add: realized_vol_take)
next
  assume "20 \<le> length (return_history s)"
  then show "get_realized_vol s = Some (np_std (take 20 (return_history s)) * sqrt 252)"
    by (simp add: realized_vol_take)
next
  assume "20 \<le> length (return_history s)"
  then have "length (take 20 (return_history s)) = 20" by simp
  then show "np_std (take 20 (return_history s)) =
            sqrt ((\<Sum>x\<leftarrow>take 20 (return_history s). (x - np_mean (take 20 (return_history s)))\<^sup>2) / 20)"
    unfolding np_std_def by (subst np_mean_def) simp
next
  assume "20 \<le> length (return_history s)"
  then have l: "length (take 20 (return_history s)) = 20" by simp
  then have "2 \<le> length (take 20 (return_history s))" by simp
  from np_std_sample_std[OF this] show "np_std (take 20 (return_history s)) =
            spec_sample_std (take 20 (return_history s)) * sqrt (19 / 20)"
    unfolding l by simp
qed

theorem C6_realized_vol_population_witness:
  "length (return_history ex_small) < 20 \<and> get_realized_vol ex_small = None
   \<and> 20 \<le> length (return_history ex_vol)
   \<and> get_realized_vol ex_vol = Some (9 / 40 * sqrt 252)
   \<and> np_std (take 20 (return_history ex_vol)) = 9 / 40
   \<and> spec_sample_std (take 20 (return_history ex_vol)) * sqrt (19 / 20) = 9 / 40"
proof -
  have l: "20 \<le> length (return_history ex_vol)" by (simp add: ex_vol_def ex_vol_returns_def)
  have a: "length (return_history ex_small) < 20 \<and> get_realized_vol ex_small = None"
    using C6_realized_vol_population[of ex_small] by (simp add: ex_small_def)
  note c = C6_realized_vol_population[of ex_vol]
  from c l have b: "Some (np_std (take 20 (return_history ex_vol)) * sqrt 252) = Some (9 / 40 * sqrt 252)"
    by (simp add: ex_vol_code)
  then have d: "np_std (take 20 (return_history ex_vol)) = 9 / 40" by simp
  from c l d have e: "spec_sample_std (take 20 (return_history ex_vol)) * sqrt (19 / 20) = 9 / 40"
    by simp
  from a l b d e show ?thesis by (simp add: ex_vol_code)
qed

section \<open>Properties of the multi-instrument strategy\<close>

subsection \<open>Lookups, scores and sorting\<close>

lemma set_all_etfs:
  "set all_etfs = set aggressive_etfs \<union> set defensive_etfs \<union> set safety_etfs \<union> {market_etf}"
  by (auto simp: all_etfs_def)

lemma symbol_data_of_member:
  "ticker \<in> set all_etfs \<Longrightarrow>
   symbol_data_of env ticker = Some \<lparr>symbol = ticker, momentum = mom_indicator env ticker,
      sma = sma_indicator env ticker, roc = rocp_indicator env ticker\<rparr>"
  by (simp add: symbol_data_of_def)


lemma is_market_bullish_eq: "is_market_bullish env = Inr (spec_market_bullish env)"
  by (simp add: is_market_bullish_def spec_market_bullish_def symbol_data_of_member set_all_etfs)

lemma scores_loop_eq:
  "set etf_list \<subseteq> set all_etfs \<Longrightarrow>
   scores_loop env etf_list scores = Inr (scores @ spec_scored env etf_list)"
proof (induction etf_list arbitrary: scores)
  case Nil
  then show ?case by (simp add: spec_scored_def)
next
  case (Cons ticker etf_list)
  then have m: "ticker \<in> set all_etfs" and r: "set etf_list \<subseteq> set all_etfs" by auto
  show ?case
    using Cons.IH[OF r]
    by (auto simp: symbol_data_of_member[OF m] spec_scored_def spec_qualifies_def spec_score_def Let_def)
qed

lemma get_etf_scores_eq:
  "set etf_list \<subseteq> set all_etfs \<Longrightarrow>
   get_etf_scores env etf_list = Inr (py_sort_reverse snd (spec_scored env etf_list))"
  by (simp add: get_etf_scores_def scores_loop_eq)

lemma spec_scored_length: "length (spec_scored env etf_list) = length (filter (spec_qualifies env) etf_list)"
  by (simp add: spec_scored_def)

lemma spec_scored_fst: "set (map fst (spec_scored env etf_list)) \<subseteq> set etf_list"
  by (auto simp: spec_scored_def)




lemma py_sort_reverse_set: "set (py_sort_reverse f xs) = set xs"
  by (simp add: py_sort_reverse_def)

lemma py_sort_reverse_length: "length (py_sort_reverse f xs) = length xs"
  by (simp add: py_sort_reverse_def)

subsection \<open>The loops and the result of \<open>rebalance\<close>\<close>

lemma liquidate_loop_eq:
  "set holdings \<subseteq> set all_etfs \<union> set target_holdings \<Longrightarrow>
   liquidate_loop env target_holdings holdings =
     Inr (map Liquidate (filter (\<lambda>t. t \<notin> set target_holdings \<and> portfolio_invested env t) holdings))"
proof (induction holdings)
  case Nil
  then show ?case by simp
next
  case (Cons ticker holdings)
  then have r: "set holdings \<subseteq> set all_etfs \<union> set target_holdings" by auto
  show ?case
  proof (cases "ticker \<in> set target_holdings")
    case True
    then show ?thesis using Cons.IH[OF r] by simp
  next
    case False
    with Cons.prems have m: "ticker \<in> set all_etfs" by auto
    show ?thesis using False Cons.IH[OF r] by (simp add: symbol_data_of_member[OF m])
  qed
qed


lemma set_holdings_loop_eq:
  "set target_holdings \<subseteq> set all_etfs \<Longrightarrow>
   set_holdings_loop env weight target_holdings = Inr (map (\<lambda>t. SetHoldings t weight) target_holdings)"
proof (induction target_holdings)
  case Nil
  then show ?case by simp
next
  case (Cons ticker target_holdings)
  then have m: "ticker \<in> set all_etfs" and r: "set target_holdings \<subseteq> set all_etfs" by auto
  show ?case using Cons.IH[OF r] by (simp add: symbol_data_of_member[OF m])
qed

lemma primary_subset: "set (primary_etfs_of env) \<subseteq> set all_etfs"
  by (auto simp: primary_etfs_of_def set_all_etfs)

lemma select_holdings_subset:
  "fst ` set etf_scores \<subseteq> set all_etfs \<Longrightarrow> set (select_holdings b etf_scores) \<subseteq> set all_etfs"
  by (auto simp: select_holdings_def set_all_etfs dest!: in_set_takeD)

lemma select_holdings_nonempty: "select_holdings b etf_scores \<noteq> []"
  by (auto simp: select_holdings_def safety_etfs_def min_etfs_def top_n_def)

lemma select_holdings_safety:
  "\<not> market_bullish \<or> length etf_scores < min_etfs \<Longrightarrow> select_holdings market_bullish etf_scores = safety_etfs"
  by (auto simp: select_holdings_def)

lemma target_of_subset: "set (target_of env) \<subseteq> set all_etfs"
  unfolding target_of_def
proof (rule select_holdings_subset)
  show "fst ` set (py_sort_reverse snd (spec_scored env (primary_etfs_of env))) \<subseteq> set all_etfs"
    using spec_scored_fst[of env "primary_etfs_of env"] primary_subset[of env]
    by (auto simp: py_sort_reverse_set)
qed





lemma rebalance_seasonal_eq:
  assumes "\<not> is_warming_up env" "set (current_holdings s) \<subseteq> set all_etfs"
  shows "rebalance_seasonal env s =
    Inr (s\<lparr>current_holdings := target_of env, last_rebalance := Some (time env)\<rparr>,
         map Liquidate (filter (\<lambda>t. t \<notin> set (target_of env) \<and> portfolio_invested env t) (current_holdings s))
         @ map (\<lambda>t. SetHoldings t (1 / real (length (target_of env)))) (target_of env))"
proof -
  have ne: "target_of env \<noteq> []" by (simp add: target_of_def select_holdings_nonempty)
  have sub: "set (current_holdings s) \<subseteq> set all_etfs \<union> set (target_of env)" using assms(2) by auto
  have sc: "get_etf_scores env (if is_winter_season env then aggressive_etfs else defensive_etfs)
     = Inr (py_sort_reverse snd (spec_scored env (primary_etfs_of env)))"
    using get_etf_scores_eq[OF primary_subset, of env] by (simp add: primary_etfs_of_def)
  show ?thesis
    unfolding rebalance_seasonal_def Let_def is_market_bullish_eq sc
    using assms(1) ne liquidate_loop_eq[OF sub] set_holdings_loop_eq[OF target_of_subset]
    by (simp add: target_of_def)
qed


subsection \<open>The example inputs\<close>





lemma bull_winter: "primary_etfs_of bull_env = [''XLV'', ''XLI'', ''XLY'', ''XLB'']"
  by (simp add: primary_etfs_of_def is_winter_season_def bull_env_def aggressive_etfs_def)

lemma bull_scored:
  "spec_scored bull_env [''XLV'', ''XLI'', ''XLY'', ''XLB''] =
     [(''XLV'', 0.05), (''XLI'', 0.02), (''XLY'', 0.10), (''XLB'', 0.05)]"
  by (simp add: spec_scored_def spec_qualifies_def spec_score_def bull_env_def ready_def)

lemma bull_sorted:
  "py_sort_reverse snd [(''XLV'', 0.05), (''XLI'', 0.02), (''XLY'', 0.10), (''XLB'', 0.05::real)] =
     [(''XLY'', 0.10), (''XLV'', 0.05), (''XLB'', 0.05), (''XLI'', 0.02)]"
  by (simp add: py_sort_reverse_def)

lemma bull_flag: "spec_market_bullish bull_env"
  by (simp add: spec_market_bullish_def bull_env_def ready_def market_etf_def)

lemma bull_target: "target_of bull_env = [''XLY'', ''XLV'', ''XLB'']"
  unfolding target_of_def bull_winter bull_scored bull_sorted
  by (simp add: bull_flag select_holdings_def min_etfs_def top_n_def)


lemma held_subset: "set (current_holdings held_state) \<subseteq> set all_etfs"
  by (simp add: held_state_def set_all_etfs aggressive_etfs_def safety_etfs_def)

lemma bull_rebalance:
  "rebalance_seasonal bull_env held_state =
     Inr (\<lparr>current_holdings = [''XLY'', ''XLV'', ''XLB''],
           last_rebalance = Some \<lparr>year = 2012, month = 2, day = 1\<rparr>\<rparr>,
          [Liquidate ''TLT'', SetHoldings ''XLY'' (1 / 3), SetHoldings ''XLV'' (1 / 3),
           SetHoldings ''XLB'' (1 / 3)])"
proof -
  have w: "\<not> is_warming_up bull_env" by (simp add: bull_env_def)
  show ?thesis
    unfolding rebalance_seasonal_eq[OF w held_subset] bull_target
    by (simp add: held_state_def bull_env_def)
qed

lemma bear_flag: "\<not> spec_market_bullish bear_env"
  by (simp add: spec_market_bullish_def bear_env_def bull_env_def ready_def market_etf_def)

lemma bear_target: "target_of bear_env = [''TLT'', ''SHY'']"
  unfolding target_of_def
  by (simp add: bear_flag select_holdings_def safety_etfs_def)

lemma bear_rebalance:
  "rebalance_seasonal bear_env held_state =
     Inr (\<lparr>current_holdings = [''TLT'', ''SHY''],
           last_rebalance = Some \<lparr>year = 2012, month = 2, day = 1\<rparr>\<rparr>,
          [Liquidate ''XLV'', SetHoldings ''TLT'' (1 / 2), SetHoldings ''SHY'' (1 / 2)])"
proof -
  have w: "\<not> is_warming_up bear_env" by (simp add: bear_env_def bull_env_def)
  show ?thesis
    unfolding rebalance_seasonal_eq[OF w held_subset] bear_target
    by (simp add: held_state_def bear_env_def bull_env_def)
qed

subsection \<open>Safety fallback\<close>

text \<open>
  Claim C4. The market flag is the comparison of the benchmark's price with its
  average when that average is ready, and true when it is not. Whenever the flag is
  false or fewer than \<open>min_etfs\<close> (2) candidates are scored, the selection is the
  whole safety set, whatever the scores; \<open>rebalance\<close> then stores the safety set and
  sets each of its two members to one half.
\<close>

theorem C4_safety_fallback:
  "is_market_bullish env =
      Inr (if is_ready (sma_indicator env market_etf)
           then securities_price env market_etf > current_value (sma_indicator env market_etf)
           else True)
   \<and> (\<not> market_bullish \<or> length etf_scores < min_etfs \<longrightarrow>
        select_holdings market_bullish etf_scores = safety_etfs)
   \<and> (\<not> is_warming_up env \<and> set (current_holdings s) \<subseteq> set all_etfs
       \<and> (\<not> spec_market_bullish env
            \<or> length (filter (spec_qualifies env) (primary_etfs_of env)) < min_etfs) \<longrightarrow>
        rebalance_seasonal env s =
          Inr (s\<lparr>current_holdings := safety_etfs, last_rebalance := Some (time env)\<rparr>,
               map Liquidate (filter (\<lambda>t. t \<notin> set safety_etfs \<and> portfolio_invested env t)
                                (current_holdings s))
               @ [SetHoldings ''TLT'' (1 / 2), SetHoldings ''SHY'' (1 / 2)]))"
proof (intro conjI impI)
  show "is_market_bullish env =
      Inr (if is_ready (sma_indicator env market_etf)
           then securities_price env market_etf > current_value (sma_indicator env market_etf)
           else True)"
    by (simp add: is_market_bullish_eq spec_market_bullish_def)
next
  assume "\<not> market_bullish \<or> length etf_scores < min_etfs"
  then show "select_holdings market_bullish etf_scores = safety_etfs"
    by (rule select_holdings_safety)
next
  assume a: "\<not> is_warming_up env \<and> set (current_holdings s) \<subseteq> set all_etfs
       \<and> (\<not> spec_market_bullish env
            \<or> length (filter (spec_qualifies env) (primary_etfs_of env)) < min_etfs)"
  then have "target_of env = safety_etfs"
    unfolding target_of_def
    by (intro select_holdings_safety) (simp add: py_sort_reverse_length spec_scored_length)
  moreover from a have "\<not> is_warming_up env" "set (current_holdings s) \<subseteq> set all_etfs" by simp_all
  note rebalance_seasonal_eq[OF this]
  ultimately show "rebalance_seasonal env s =
          Inr (s\<lparr>current_holdings := safety_etfs, last_rebalance := Some (time env)\<rparr>,
               map Liquidate (filter (\<lambda>t. t \<notin> set safety_etfs \<and> portfolio_invested env t)
                                (current_holdings s))
               @ [SetHoldings ''TLT'' (1 / 2), SetHoldings ''SHY'' (1 / 2)])"
    by (simp add: safety_etfs_def)
qed

theorem C4_safety_fallback_witness:
  "is_market_bullish bear_env = Inr False
   \<and> is_market_bullish cold_env = Inr True
   \<and> select_holdings True [(''XLV'', 7)] = [''TLT'', ''SHY'']
   \<and> select_holdings False [(''XLV'', 7), (''XLI'', 5), (''XLY'', 3)] = [''TLT'', ''SHY'']
   \<and> length (filter (spec_qualifies bear_env) (primary_etfs_of bear_env)) = 4
   \<and> rebalance_seasonal bear_env held_state =
       Inr (\<lparr>current_holdings = [''TLT'', ''SHY''],
             last_rebalance = Some \<lparr>year = 2012, month = 2, day = 1\<rparr>\<rparr>,
            [Liquidate ''XLV'', SetHoldings ''TLT'' (1 / 2), SetHoldings ''SHY'' (1 / 2)])"
proof -
  have a: "is_market_bullish bear_env = Inr False"
    using C4_safety_fallback[of bear_env False "[]" held_state]
    by (simp add: bear_env_def bull_env_def ready_def market_etf_def)
  have b: "is_market_bullish cold_env = Inr True"
    using C4_safety_fallback[of cold_env False "[]" held_state]
    by (simp add: cold_env_def not_ready_def)
  have c: "select_holdings True [(''XLV'', 7)] = [''TLT'', ''SHY'']"
    using C4_safety_fallback[of bear_env True "[(''XLV'', 7)]" held_state]
    by (simp add: min_etfs_def safety_etfs_def)
  have d: "select_holdings False [(''XLV'', 7), (''XLI'', 5), (''XLY'', 3)] = [''TLT'', ''SHY'']"
    using C4_safety_fallback[of bear_env False "[(''XLV'', 7), (''XLI'', 5), (''XLY'', 3)]" held_state]
    by (simp add: safety_etfs_def)
  have w: "\<not> is_warming_up bear_env" by (simp add: bear_env_def bull_env_def)
  have e: "length (filter (spec_qualifies bear_env) (primary_etfs_of bear_env)) = 4"
    by (simp add: primary_etfs_of_def is_winter_season_def aggressive_etfs_def spec_qualifies_def
        bear_env_def bull_env_def ready_def)
  have f: "rebalance_seasonal bear_env held_state =
       Inr (\<lparr>current_holdings = [''TLT'', ''SHY''],
             last_rebalance = Some \<lparr>year = 2012, month = 2, day = 1\<rparr>\<rparr>,
            [Liquidate ''XLV'', SetHoldings ''TLT'' (1 / 2), SetHoldings ''SHY'' (1 / 2)])"
    using C4_safety_fallback[of bear_env False "[]" held_state] w held_subset bear_flag
    by (simp add: safety_etfs_def held_state_def bear_env_def bull_env_def)
  from a b c d e f show ?thesis by blast
qed

subsection \<open>Ranking and selection\<close>



subsection \<open>Liquidations and set-weight instructions\<close>

text \<open>
  Claim C10. In a rebalance past the warm-up gate, no instrument is both liquidated
  and given a weight: the liquidated instruments are those of the previous selection
  that are absent from the new one and invested, and the instruments given a weight
  are exactly those of the new selection.
\<close>

theorem C10_liquidate_set_disjoint:
  assumes "\<not> is_warming_up env" "set (current_holdings s) \<subseteq> set all_etfs"
  shows "\<exists>s' ins. rebalance_seasonal env s = Inr (s', ins)
     \<and> {t. Liquidate t \<in> set ins} \<inter> {t. \<exists>w. SetHoldings t w \<in> set ins} = {}
     \<and> {t. Liquidate t \<in> set ins} =
         {t. t \<in> set (current_holdings s) \<and> t \<notin> set (current_holdings s') \<and> portfolio_invested env t}
     \<and> {t. \<exists>w. SetHoldings t w \<in> set ins} = set (current_holdings s')"
  unfolding rebalance_seasonal_eq[OF assms]
  by (auto simp: image_iff)

theorem C10_liquidate_set_disjoint_witness:
  "rebalance_seasonal bull_env held_state =
     Inr (\<lparr>current_holdings = [''XLY'', ''XLV'', ''XLB''],
           last_rebalance = Some \<lparr>year = 2012, month = 2, day = 1\<rparr>\<rparr>,
          [Liquidate ''TLT'', SetHoldings ''XLY'' (1 / 3), SetHoldings ''XLV'' (1 / 3),
           SetHoldings ''XLB'' (1 / 3)])
   \<and> (\<exists>s' ins. rebalance_seasonal bull_env held_state = Inr (s', ins)
        \<and> {t. Liquidate t \<in> set ins} \<inter> {t. \<exists>w. SetHoldings t w \<in> set ins} = {}
        \<and> {t. Liquidate t \<in> set ins} = {''TLT''}
        \<and> {t. \<exists>w. SetHoldings t w \<in> set ins} = {''XLY'', ''XLV'', ''XLB''})"
proof -
  have w: "\<not> is_warming_up bull_env" by (simp add: bull_env_def)
  from C10_liquidate_set_disjoint[OF w held_subset] obtain s' ins where
    r: "rebalance_seasonal bull_env held_state = Inr (s', ins)"
    and d: "{t. Liquidate t \<in> set ins} \<inter> {t. \<exists>w. SetHoldings t w \<in> set ins} = {}"
    by blast
  from r have i: "ins = [Liquidate ''TLT'', SetHoldings ''XLY'' (1 / 3), SetHoldings ''XLV'' (1 / 3),
           SetHoldings ''XLB'' (1 / 3)]" by (simp add: bull_rebalance)
  have "{t. Liquidate t \<in> set ins} = {''TLT''}" unfolding i by auto
  moreover have "{t. \<exists>w. SetHoldings t w \<in> set ins} = {''XLY'', ''XLV'', ''XLB''}"
    unfolding i by (auto intro!: exI[of _ "1 / 3"])
  ultimately show ?thesis using r d bull_rebalance by blast
qed

section \<open>Properties of both strategies\<close>

subsection \<open>The readiness gate\<close>




subsection \<open>Idempotence\<close>



end
